theory Spec2Isabelle
  imports Complex_Main "HOL-Library.Sublist"
begin

section \<open>The A/B test decision engine of \<^verbatim>\<open>app.py\<close>\<close>

text \<open>
  The script loads a table, takes three of its columns (the group column, the primary
  metric and the continuous metric), checks that the group column has two labels, drops
  the rows whose continuous value is not below a threshold, bootstraps the difference of
  the two group means and runs a Mann-Whitney U test. This theory embeds the statements
  of the script that compute; the widgets that only print or plot are left out.

  Numbers are Python floats in the script. The embedding keeps the one non-number that
  the comparisons treat differently (NaN) and computes on exact rationals otherwise:
  rounding of the floating-point operations is not modelled. Infinite cells are not
  modelled either: with one in the continuous column the slider's \<^verbatim>\<open>int(...)\<close>
  bounds raise before any statistic is computed.

  Three routines that the script calls are not code of this repository and are
  parameters of the embedding: the 0.99 quantile of a column (pandas, computed in
  doubles), the slider widget (streamlit) and the Mann-Whitney U test (scipy).
\<close>

subsection \<open>Cells, rows and data frames\<close>

datatype pyfloat = Num rat | NaN

text \<open>Comparisons with NaN are false, arithmetic with NaN is NaN.\<close>

fun lt :: "pyfloat \<Rightarrow> pyfloat \<Rightarrow> bool" where
  "lt (Num a) (Num b) = (a < b)"
| "lt _ _ = False"

definition gt :: "pyfloat \<Rightarrow> pyfloat \<Rightarrow> bool" where
  "gt a b = lt b a"

fun fsub :: "pyfloat \<Rightarrow> pyfloat \<Rightarrow> pyfloat" where
  "fsub (Num a) (Num b) = Num (a - b)"
| "fsub _ _ = NaN"

text \<open>
  A row carries the cells of the three selected columns: \<open>group\<close> is the cell of
  \<^verbatim>\<open>group_col\<close>, \<open>metric\<close> the cell of \<^verbatim>\<open>metric_col\<close> (a boolean
  reads as 0 or 1) and \<open>continuous\<close> the cell of \<^verbatim>\<open>continuous_col\<close>.
  A label is a string; a missing label is not modelled.
\<close>

record row =
  group :: string
  metric :: pyfloat
  continuous :: pyfloat

type_synonym dataframe = "row list"

datatype error =
    GroupCardinality "string list"
      \<comment> \<open>\<^verbatim>\<open>st.error("... exactly 2 unique values ...")\<close> and \<^verbatim>\<open>st.stop()\<close>, lines 118-120\<close>
  | KeyError string
      \<comment> \<open>a label looked up in a series that has no such key\<close>
  | ValueError
      \<comment> \<open>\<^verbatim>\<open>int(nan)\<close>\<close>
  | LibraryError string
      \<comment> \<open>whatever the slider widget or the Mann-Whitney routine raises\<close>

subsection \<open>Outlier filter (lines 137-138)\<close>

text \<open>
  \<^verbatim>\<open>df_raw[continuous_col] < threshold\<close> is a boolean series, one entry per row;
  indexing the frame with it keeps the rows whose entry is true, in order.
\<close>

definition mask_lt :: "pyfloat list \<Rightarrow> int \<Rightarrow> bool list" where
  "mask_lt col threshold = map (\<lambda>v. lt v (Num (of_int threshold))) col"

definition boolean_index :: "'a list \<Rightarrow> bool list \<Rightarrow> 'a list" where
  "boolean_index df keep = map fst (filter snd (zip df keep))"

definition df_clean :: "dataframe \<Rightarrow> int \<Rightarrow> dataframe" where
  "df_clean df_raw threshold = boolean_index df_raw (mask_lt (map continuous df_raw) threshold)"

definition removed_count :: "dataframe \<Rightarrow> int \<Rightarrow> nat" where
  "removed_count df_raw threshold = length df_raw - length (df_clean df_raw threshold)"

subsection \<open>Group labels (lines 117-123)\<close>

text \<open>
  \<^verbatim>\<open>unique()\<close> walks the column once and appends every value it has not seen yet, so
  the result lists the distinct labels in the order of their first appearance.
\<close>

primrec unique_from :: "'a list \<Rightarrow> 'a list \<Rightarrow> 'a list" where
  "unique_from seen [] = seen"
| "unique_from seen (x # xs) = unique_from (if x \<in> set seen then seen else seen @ [x]) xs"

definition unique :: "'a list \<Rightarrow> 'a list" where
  "unique xs = unique_from [] xs"

definition unique_groups :: "dataframe \<Rightarrow> string list" where
  "unique_groups df_raw = unique (map group df_raw)"

definition group_a_b :: "dataframe \<Rightarrow> error + string \<times> string" where
  "group_a_b df_raw =
     (if length (unique_groups df_raw) \<noteq> 2 then Inl (GroupCardinality (unique_groups df_raw))
      else Inr (unique_groups df_raw ! 0, unique_groups df_raw ! 1))"

subsection \<open>Column statistics\<close>

text \<open>The reductions of a numeric column skip NaN and give NaN when nothing is left.\<close>

fun finite_values :: "pyfloat list \<Rightarrow> rat list" where
  "finite_values [] = []"
| "finite_values (Num a # vs) = a # finite_values vs"
| "finite_values (NaN # vs) = finite_values vs"

definition series_mean :: "pyfloat list \<Rightarrow> pyfloat" where
  "series_mean col =
     (case finite_values col of
        [] \<Rightarrow> NaN
      | x # xs \<Rightarrow> Num (sum_list (x # xs) / of_nat (length (x # xs))))"

definition series_min :: "pyfloat list \<Rightarrow> pyfloat" where
  "series_min col = (case finite_values col of [] \<Rightarrow> NaN | x # xs \<Rightarrow> Num (fold min xs x))"

definition series_max :: "pyfloat list \<Rightarrow> pyfloat" where
  "series_max col = (case finite_values col of [] \<Rightarrow> NaN | x # xs \<Rightarrow> Num (fold max xs x))"

text \<open>\<^verbatim>\<open>int(x)\<close> truncates towards zero and raises on NaN.\<close>

fun py_int :: "pyfloat \<Rightarrow> error + int" where
  "py_int (Num a) = Inr (if 0 \<le> a then \<lfloor>a\<rfloor> else \<lceil>a\<rceil>)"
| "py_int NaN = Inl ValueError"

subsection \<open>Threshold slider (lines 129-135)\<close>

text \<open>
  \<open>quantile\<close> stands for \<^verbatim>\<open>Series.quantile(0.99)\<close>: it gets the continuous column
  and returns what pandas computes for it.
\<close>

definition q99 :: "(pyfloat list \<Rightarrow> pyfloat) \<Rightarrow> dataframe \<Rightarrow> pyfloat" where
  "q99 quantile df_raw = quantile (map continuous df_raw)"

text \<open>
  The arguments of \<^verbatim>\<open>st.slider\<close> are evaluated in the order label,
  \<^verbatim>\<open>min_value\<close>, \<^verbatim>\<open>max_value\<close>, \<^verbatim>\<open>value\<close>; the label already holds
  \<^verbatim>\<open>int(q99)\<close>. \<open>slider_args\<close> gives the three numeric arguments
  \<open>(min_value, max_value, value)\<close>, or the exception of the first \<^verbatim>\<open>int(...)\<close>
  that fails.
\<close>

definition slider_args ::
  "(pyfloat list \<Rightarrow> pyfloat) \<Rightarrow> dataframe \<Rightarrow> error + int \<times> int \<times> int" where
  "slider_args quantile df_raw =
     (case py_int (q99 quantile df_raw) of
        Inl e \<Rightarrow> Inl e
      | Inr q \<Rightarrow>
          (case py_int (series_min (map continuous df_raw)) of
             Inl e \<Rightarrow> Inl e
           | Inr min_value \<Rightarrow>
               (case py_int (series_max (map continuous df_raw)) of
                  Inl e \<Rightarrow> Inl e
                | Inr max_value \<Rightarrow>
                    Inr (min_value, max_value,
                         if lt (Num 3000) (series_max (map continuous df_raw))
                         then 3000 else q))))"

text \<open>
  \<open>slider\<close> stands for the widget together with what the user did to it:
  \<open>slider min_value max_value v\<close> is the position \<^verbatim>\<open>st.slider\<close> returns for these
  bounds and this default, or the exception it raises. An untouched slider returns its
  default; a position the widget returns lies within the bounds it was given.
\<close>

definition threshold ::
  "(pyfloat list \<Rightarrow> pyfloat) \<Rightarrow> (int \<Rightarrow> int \<Rightarrow> int \<Rightarrow> error + int) \<Rightarrow> dataframe
   \<Rightarrow> error + int" where
  "threshold quantile slider df_raw =
     (case slider_args quantile df_raw of
        Inl e \<Rightarrow> Inl e
      | Inr (min_value, max_value, v) \<Rightarrow> slider min_value max_value v)"

subsection \<open>Group means (lines 58-60 and 153-154)\<close>

text \<open>
  \<^verbatim>\<open>df.groupby(group_col)[metric_col].mean()\<close> is a series with one entry per label
  that occurs in \<open>df\<close>; looking up a label that does not occur raises \<^verbatim>\<open>KeyError\<close>.
\<close>

definition group_mean :: "dataframe \<Rightarrow> string \<Rightarrow> pyfloat" where
  "group_mean df g = series_mean (map metric (filter (\<lambda>r. group r = g) df))"

definition groupby_mean :: "dataframe \<Rightarrow> string \<rightharpoonup> pyfloat" where
  "groupby_mean df g = (if g \<in> set (map group df) then Some (group_mean df g) else None)"

definition getitem :: "(string \<rightharpoonup> pyfloat) \<Rightarrow> string \<Rightarrow> error + pyfloat" where
  "getitem series key = (case series key of None \<Rightarrow> Inl (KeyError key) | Some v \<Rightarrow> Inr v)"

definition rates :: "dataframe \<Rightarrow> string \<rightharpoonup> pyfloat" where
  "rates clean = groupby_mean clean"

definition raw_diff :: "dataframe \<Rightarrow> string \<Rightarrow> string \<Rightarrow> error + pyfloat" where
  "raw_diff clean group_a group_b =
     (case getitem (rates clean) group_a of
        Inl e \<Rightarrow> Inl e
      | Inr ra \<Rightarrow>
          (case getitem (rates clean) group_b of
             Inl e \<Rightarrow> Inl e
           | Inr rb \<Rightarrow> Inr (fsub ra rb)))"

subsection \<open>Bootstrapping (lines 47-63)\<close>

text \<open>
  \<^verbatim>\<open>df.sample(frac=1, replace=True)\<close> asks the ambient generator of numpy for
  \<open>len(df)\<close> row positions below \<open>len(df)\<close> and takes those rows. The function has
  no seed argument and passes no \<^verbatim>\<open>random_state\<close>. The generator is modelled by
  what it delivers: \<open>draws i\<close> is the list of positions drawn in iteration \<open>i\<close>.
\<close>

definition sample :: "dataframe \<Rightarrow> nat list \<Rightarrow> dataframe" where
  "sample df positions = map (\<lambda>j. df ! j) positions"

definition valid_draws :: "dataframe \<Rightarrow> nat \<Rightarrow> (nat \<Rightarrow> nat list) \<Rightarrow> bool" where
  "valid_draws df iterations draws =
     list_all (\<lambda>i. length (draws i) = length df \<and> list_all (\<lambda>j. j < length df) (draws i))
       [0..<iterations]"

definition boot_means :: "dataframe \<Rightarrow> string \<rightharpoonup> pyfloat" where
  "boot_means boot_sample = groupby_mean boot_sample"

definition boot_diff :: "dataframe \<Rightarrow> string \<Rightarrow> string \<Rightarrow> error + pyfloat" where
  "boot_diff boot_sample group_a group_b =
     (case getitem (boot_means boot_sample) group_a of
        Inl e \<Rightarrow> Inl e
      | Inr ma \<Rightarrow>
          (case getitem (boot_means boot_sample) group_b of
             Inl e \<Rightarrow> Inl e
           | Inr mb \<Rightarrow> Inr (fsub ma mb)))"

text \<open>
  The loop \<^verbatim>\<open>for i in range(iterations)\<close>: \<open>i\<close> is the current index, \<open>n\<close> the
  number of iterations left and \<open>boot_diffs\<close> the list built so far. An exception
  in the body leaves the loop and the function.
\<close>

fun boot_loop ::
  "dataframe \<Rightarrow> string \<Rightarrow> string \<Rightarrow> (nat \<Rightarrow> nat list) \<Rightarrow> nat \<Rightarrow> nat \<Rightarrow> pyfloat list
   \<Rightarrow> error + pyfloat list" where
  "boot_loop df group_a group_b draws i 0 boot_diffs = Inr boot_diffs"
| "boot_loop df group_a group_b draws i (Suc n) boot_diffs =
     (case boot_diff (sample df (draws i)) group_a group_b of
        Inl e \<Rightarrow> Inl e
      | Inr d \<Rightarrow> boot_loop df group_a group_b draws (Suc i) n (boot_diffs @ [d]))"

definition run_bootstrapping ::
  "dataframe \<Rightarrow> string \<Rightarrow> string \<Rightarrow> nat \<Rightarrow> (nat \<Rightarrow> nat list) \<Rightarrow> error + pyfloat list" where
  "run_bootstrapping df group_a group_b iterations draws =
     boot_loop df group_a group_b draws 0 iterations []"

text \<open>
  \<^verbatim>\<open>@st.cache_data\<close> stores the value the function returned under its arguments and
  returns the stored value when the same arguments come again. The embedding describes
  the call that runs the body.
\<close>

subsection \<open>Conclusion logic (lines 176-184 and 198-201)\<close>

text \<open>
  \<^verbatim>\<open>(boot_df['difference'] > 0).mean()\<close> is the share of the entries that are
  greater than 0, and NaN for a frame with no entry.
\<close>

definition prob_a_better :: "pyfloat list \<Rightarrow> pyfloat" where
  "prob_a_better difference =
     (if difference = [] then NaN
      else Num (of_nat (length (filter (\<lambda>d. gt d (Num 0)) difference))
                / of_nat (length difference)))"

text \<open>
  The three branches of the recommendation: \<open>A_WINS\<close> is the success message that names
  \<^verbatim>\<open>group_a\<close> (line 180), \<open>B_WINS\<close> the one that names \<^verbatim>\<open>group_b\<close> (line 182)
  and \<open>INCONCLUSIVE\<close> the warning (line 184).
\<close>

datatype verdict = A_WINS | B_WINS | INCONCLUSIVE

definition recommendation :: "pyfloat \<Rightarrow> verdict" where
  "recommendation p =
     (if gt p (Num (95 / 100)) then A_WINS
      else if lt p (Num (5 / 100)) then B_WINS
      else INCONCLUSIVE)"

definition engagement_significant :: "pyfloat \<Rightarrow> bool" where
  "engagement_significant u_pval = lt u_pval (Num (5 / 100))"

subsection \<open>The script from the group check to the rank test (lines 117-201)\<close>

record report =
  r_group_a :: string
  r_group_b :: string
  r_threshold :: int
  r_df_clean :: dataframe
  r_removed_count :: nat
  r_raw_diff :: pyfloat
  r_boot_diffs :: "pyfloat list"
  r_prob_a_better :: pyfloat
  r_recommendation :: verdict
  r_u_stat :: pyfloat
  r_u_pval :: pyfloat
  r_engagement_significant :: bool

text \<open>
  \<open>mannwhitneyu\<close> stands for \<^verbatim>\<open>scipy.stats.mannwhitneyu\<close>: it gets the continuous
  values of the two groups and returns the statistic and the p-value, or raises. The
  script calls \<^verbatim>\<open>run_bootstrapping\<close> with its default of 1000 iterations; the
  number is a parameter here.
\<close>

definition analysis ::
  "(pyfloat list \<Rightarrow> pyfloat) \<Rightarrow> (int \<Rightarrow> int \<Rightarrow> int \<Rightarrow> error + int)
   \<Rightarrow> (pyfloat list \<Rightarrow> pyfloat list \<Rightarrow> error + pyfloat \<times> pyfloat) \<Rightarrow> (nat \<Rightarrow> nat list)
   \<Rightarrow> dataframe \<Rightarrow> nat \<Rightarrow> error + report" where
  "analysis quantile slider mannwhitneyu draws df_raw iterations =
     (case group_a_b df_raw of
        Inl e \<Rightarrow> Inl e
      | Inr (group_a, group_b) \<Rightarrow>
     (case threshold quantile slider df_raw of
        Inl e \<Rightarrow> Inl e
      | Inr t \<Rightarrow>
     (case raw_diff (df_clean df_raw t) group_a group_b of
        Inl e \<Rightarrow> Inl e
      | Inr rd \<Rightarrow>
     (case run_bootstrapping (df_clean df_raw t) group_a group_b iterations draws of
        Inl e \<Rightarrow> Inl e
      | Inr boot \<Rightarrow>
     (case mannwhitneyu
             (map continuous (filter (\<lambda>r. group r = group_a) (df_clean df_raw t)))
             (map continuous (filter (\<lambda>r. group r = group_b) (df_clean df_raw t))) of
        Inl e \<Rightarrow> Inl e
      | Inr (u_stat, u_pval) \<Rightarrow>
          Inr \<lparr> r_group_a = group_a, r_group_b = group_b, r_threshold = t,
                r_df_clean = df_clean df_raw t,
                r_removed_count = removed_count df_raw t,
                r_raw_diff = rd,
                r_boot_diffs = boot,
                r_prob_a_better = prob_a_better boot,
                r_recommendation = recommendation (prob_a_better boot),
                r_u_stat = u_stat, r_u_pval = u_pval,
                r_engagement_significant = engagement_significant u_pval \<rparr>)))))"

section \<open>Properties\<close>

subsection \<open>Facts about the outlier filter\<close>

lemma boolean_index_map: "boolean_index xs (map P xs) = filter P xs"
  by (induction xs) (simp_all add: boolean_index_def)

lemma df_clean_filter:
  "df_clean df_raw t = filter (\<lambda>r. lt (continuous r) (Num (of_int t))) df_raw"
  by (simp add: df_clean_def mask_lt_def boolean_index_map [symmetric] comp_def)

text \<open>
  C4. The cleaned frame is exactly the subsequence of the rows whose continuous value is
  strictly below the threshold: a row is kept as often as it occurs when its value is
  below, and dropped when its value equals the threshold, exceeds it or is NaN; and
  the removed count plus the size of the cleaned frame is the size of the raw frame.
\<close>

theorem outlier_filter_strict_subsequence:
  "df_clean df_raw t = filter (\<lambda>r. lt (continuous r) (Num (of_int t))) df_raw
   \<and> subseq (df_clean df_raw t) df_raw
   \<and> df_clean [r\<lparr>continuous := Num (of_int t)\<rparr>] t = []
   \<and> removed_count df_raw t + length (df_clean df_raw t) = length df_raw"
  by (simp add: df_clean_filter removed_count_def)

text \<open>
  C8. Filtering a frame that was already filtered with the same threshold changes
  nothing: the output is the input and the removed count is 0.
\<close>

theorem outlier_filter_idempotent:
  "df_clean (df_clean df_raw t) t = df_clean df_raw t
   \<and> removed_count (df_clean df_raw t) t = 0"
  by (simp add: df_clean_filter removed_count_def)

subsection \<open>Group labels\<close>

lemma unique_from_prefix: "\<exists>ys. unique_from seen xs = seen @ ys"
proof (induction xs arbitrary: seen)
  case Nil
  show ?case by simp
next
  case (Cons x xs)
  show ?case
  proof (cases "x \<in> set seen")
    case True
    with Cons.IH [of seen] show ?thesis by simp
  next
    case False
    from Cons.IH [of "seen @ [x]"] obtain ys where "unique_from (seen @ [x]) xs = (seen @ [x]) @ ys" ..
    with False show ?thesis by simp
  qed
qed

lemma set_unique_from: "set (unique_from seen xs) = set seen \<union> set xs"
  by (induction xs arbitrary: seen) auto

lemma distinct_unique_from: "distinct seen \<Longrightarrow> distinct (unique_from seen xs)"
  by (induction xs arbitrary: seen) auto

lemma length_unique: "length (unique xs) = card (set xs)"
proof -
  have "distinct (unique xs)" by (simp add: unique_def distinct_unique_from)
  then have "card (set (unique xs)) = length (unique xs)" by (rule distinct_card)
  then show ?thesis by (simp add: unique_def set_unique_from)
qed

lemma unique_from_next:
  "unique_from seen xs = seen @ y # ys \<Longrightarrow> y = hd (filter (\<lambda>x. x \<notin> set seen) xs)"
proof (induction xs arbitrary: seen)
  case Nil
  then show ?case by simp
next
  case (Cons x xs)
  show ?case
  proof (cases "x \<in> set seen")
    case True
    with Cons.prems have "unique_from seen xs = seen @ y # ys" by simp
    from Cons.IH [OF this] True show ?thesis by simp
  next
    case False
    obtain zs where zs: "unique_from (seen @ [x]) xs = (seen @ [x]) @ zs"
      using unique_from_prefix by blast
    from Cons.prems False have "unique_from (seen @ [x]) xs = seen @ y # ys" by simp
    with zs have "y = x" by simp
    with False show ?thesis by simp
  qed
qed

lemma unique_two:
  assumes "card (set xs) = 2"
  shows "unique xs = [hd xs, hd (filter (\<lambda>x. x \<noteq> hd xs) xs)]"
proof -
  from assms have len: "length (unique xs) = 2" by (simp add: length_unique)
  from assms obtain x xs' where xs: "xs = x # xs'" by (cases xs) auto
  obtain zs where zs: "unique_from [x] xs' = [x] @ zs"
    using unique_from_prefix by blast
  have u: "unique xs = unique_from [x] xs'" by (simp add: unique_def xs)
  with len zs have "length zs = 1" by simp
  then obtain y where y: "zs = [y]" by (cases zs) auto
  with zs have "unique_from [x] xs' = [x] @ y # []" by simp
  from unique_from_next [OF this] have "y = hd (filter (\<lambda>z. z \<noteq> x) xs')" by simp
  with u zs y show ?thesis by (simp add: xs)
qed


subsection \<open>Group means and the bootstrap loop\<close>

lemma getitem_groupby_mean:
  "getitem (groupby_mean df) g =
     (if g \<in> set (map group df) then Inr (group_mean df g) else Inl (KeyError g))"
  by (simp add: getitem_def groupby_mean_def)

lemma boot_diff_cases:
  "boot_diff s a b =
     (if a \<notin> set (map group s) then Inl (KeyError a)
      else if b \<notin> set (map group s) then Inl (KeyError b)
      else Inr (fsub (group_mean s a) (group_mean s b)))"
  by (simp add: boot_diff_def boot_means_def getitem_groupby_mean)

lemma raw_diff_cases:
  "raw_diff s a b =
     (if a \<notin> set (map group s) then Inl (KeyError a)
      else if b \<notin> set (map group s) then Inl (KeyError b)
      else Inr (fsub (group_mean s a) (group_mean s b)))"
  by (simp add: raw_diff_def rates_def getitem_groupby_mean)

lemma boot_loop_all_present:
  "(\<And>k. k < n \<Longrightarrow> a \<in> set (map group (sample df (draws (i + k))))
                    \<and> b \<in> set (map group (sample df (draws (i + k)))))
   \<Longrightarrow> boot_loop df a b draws i n acc =
       Inr (acc @ map (\<lambda>k. fsub (group_mean (sample df (draws k)) a)
                                 (group_mean (sample df (draws k)) b)) [i..<i + n])"
proof (induction n arbitrary: i acc)
  case 0
  show ?case by simp
next
  case (Suc n)
  have here: "a \<in> set (map group (sample df (draws i))) \<and> b \<in> set (map group (sample df (draws i)))"
    using Suc.prems [of 0] by simp
  have later: "\<And>k. k < n \<Longrightarrow> a \<in> set (map group (sample df (draws (Suc i + k))))
                    \<and> b \<in> set (map group (sample df (draws (Suc i + k))))"
    using Suc.prems by (metis Suc_less_eq add_Suc_shift)
  have "[i..<i + Suc n] = i # [Suc i..<Suc i + n]"
    by (simp add: upt_conv_Cons)
  with here Suc.IH [OF later] show ?case
    by (simp add: boot_diff_cases)
qed

lemma boot_loop_some_missing:
  "k < n \<Longrightarrow> a \<notin> set (map group (sample df (draws (i + k))))
               \<or> b \<notin> set (map group (sample df (draws (i + k))))
   \<Longrightarrow> boot_loop df a b draws i n acc = Inl (KeyError a)
       \<or> boot_loop df a b draws i n acc = Inl (KeyError b)"
proof (induction n arbitrary: i k acc)
  case 0
  then show ?case by simp
next
  case (Suc n)
  show ?case
  proof (cases "a \<in> set (map group (sample df (draws i))) \<and> b \<in> set (map group (sample df (draws i)))")
    case False
    then show ?thesis by (auto simp: boot_diff_cases)
  next
    case True
    with Suc.prems(2) have "k \<noteq> 0" by (cases k) auto
    then obtain k' where k': "k = Suc k'" by (cases k) auto
    with Suc.prems have "k' < n"
      and "a \<notin> set (map group (sample df (draws (Suc i + k'))))
           \<or> b \<notin> set (map group (sample df (draws (Suc i + k'))))"
      by simp_all
    from Suc.IH [OF this] True show ?thesis
      by (simp add: boot_diff_cases)
  qed
qed

lemma run_bootstrapping_Inr_iff:
  "run_bootstrapping df a b iterations draws = Inr ds \<longleftrightarrow>
     (\<forall>i<iterations. a \<in> set (map group (sample df (draws i)))
                      \<and> b \<in> set (map group (sample df (draws i))))
     \<and> ds = map (\<lambda>k. fsub (group_mean (sample df (draws k)) a)
                            (group_mean (sample df (draws k)) b)) [0..<iterations]"
proof (cases "\<forall>i<iterations. a \<in> set (map group (sample df (draws i)))
                      \<and> b \<in> set (map group (sample df (draws i)))")
  case True
  then have "boot_loop df a b draws 0 iterations [] =
       Inr ([] @ map (\<lambda>k. fsub (group_mean (sample df (draws k)) a)
                                 (group_mean (sample df (draws k)) b)) [0..<0 + iterations])"
    by (intro boot_loop_all_present) simp
  with True show ?thesis by (auto simp: run_bootstrapping_def)
next
  case False
  then obtain k where k: "k < iterations"
    and bad: "a \<notin> set (map group (sample df (draws k)))
         \<or> b \<notin> set (map group (sample df (draws k)))"
    by auto
  have "boot_loop df a b draws 0 iterations [] = Inl (KeyError a)
        \<or> boot_loop df a b draws 0 iterations [] = Inl (KeyError b)"
    using k bad
      boot_loop_some_missing [where k = k and n = iterations and i = 0 and a = a and b = b
        and df = df and draws = draws and acc = "[]"]
    by simp
  with False show ?thesis
    by (auto simp: run_bootstrapping_def)
qed


subsection \<open>The group check\<close>

lemma set_unique: "set (unique xs) = set xs"
  by (simp add: unique_def set_unique_from)

lemma distinct_unique: "distinct (unique xs)"
  by (simp add: unique_def distinct_unique_from)

lemma analysis_group_cardinality:
  "group_a_b df_raw = Inl e \<Longrightarrow> analysis quantile slider mannwhitneyu draws df_raw iterations = Inl e"
  by (simp add: analysis_def)

text \<open>
  C6. When the group column of the frame holds exactly two distinct labels, the check
  returns them with group A the label of the first row and group B the first label that
  differs from it. With any other number of distinct labels (none, one, three or more)
  the check stops the script with the group-cardinality error, and so does the whole
  analysis.
\<close>

theorem group_labels_or_cardinality_error:
  "(card (set (map group df_raw)) = 2 \<longrightarrow>
      group_a_b df_raw =
        Inr (hd (map group df_raw),
             hd (filter (\<lambda>g. g \<noteq> hd (map group df_raw)) (map group df_raw)))
      \<and> hd (map group df_raw) \<noteq> hd (filter (\<lambda>g. g \<noteq> hd (map group df_raw)) (map group df_raw))
      \<and> set (map group df_raw) =
          {hd (map group df_raw),
           hd (filter (\<lambda>g. g \<noteq> hd (map group df_raw)) (map group df_raw))})
   \<and> (card (set (map group df_raw)) \<noteq> 2 \<longrightarrow>
      group_a_b df_raw = Inl (GroupCardinality (unique_groups df_raw))
      \<and> analysis quantile slider mannwhitneyu draws df_raw iterations
          = Inl (GroupCardinality (unique_groups df_raw)))"
proof (intro conjI impI)
  assume two: "card (set (map group df_raw)) = 2"
  let ?a = "hd (map group df_raw)"
  let ?b = "hd (filter (\<lambda>g. g \<noteq> ?a) (map group df_raw))"
  from unique_two [OF two] have u: "unique_groups df_raw = [?a, ?b]"
    by (simp add: unique_groups_def)
  then show "group_a_b df_raw = Inr (?a, ?b)"
    by (simp add: group_a_b_def)
  from u distinct_unique [of "map group df_raw"] show "?a \<noteq> ?b"
    by (simp add: unique_groups_def)
  from u set_unique [of "map group df_raw"] show "set (map group df_raw) = {?a, ?b}"
    by (simp add: unique_groups_def)
next
  assume other: "card (set (map group df_raw)) \<noteq> 2"
  then show e: "group_a_b df_raw = Inl (GroupCardinality (unique_groups df_raw))"
    by (simp add: group_a_b_def unique_groups_def length_unique)
  then show "analysis quantile slider mannwhitneyu draws df_raw iterations
          = Inl (GroupCardinality (unique_groups df_raw))"
    by (rule analysis_group_cardinality)
qed

theorem group_labels_or_cardinality_error_witness:
  "group_a_b [\<lparr>group = ''gate_30'', metric = Num 1, continuous = Num 3\<rparr>,
              \<lparr>group = ''gate_40'', metric = Num 0, continuous = Num 7\<rparr>,
              \<lparr>group = ''gate_30'', metric = Num 0, continuous = Num 9\<rparr>]
     = Inr (''gate_30'', ''gate_40'')
   \<and> group_a_b [\<lparr>group = ''a'', metric = Num 1, continuous = Num 3\<rparr>]
     = Inl (GroupCardinality [''a''])
   \<and> analysis (\<lambda>col. Num 9) (\<lambda>lo hi v. Inr v) (\<lambda>x y. Inr (Num 0, Num 1)) (\<lambda>i. [0, 1, 2])
        [\<lparr>group = ''a'', metric = Num 1, continuous = Num 3\<rparr>,
         \<lparr>group = ''b'', metric = Num 0, continuous = Num 9\<rparr>,
         \<lparr>group = ''c'', metric = Num 0, continuous = Num 9\<rparr>] 1000
     = Inl (GroupCardinality [''a'', ''b'', ''c''])"
proof -
  let ?two = "[\<lparr>group = ''gate_30'', metric = Num 1, continuous = Num 3\<rparr>,
              \<lparr>group = ''gate_40'', metric = Num 0, continuous = Num 7\<rparr>,
              \<lparr>group = ''gate_30'', metric = Num 0, continuous = Num 9\<rparr>]"
  let ?one = "[\<lparr>group = ''a'', metric = Num 1, continuous = Num 3\<rparr>]"
  let ?three = "[\<lparr>group = ''a'', metric = Num 1, continuous = Num 3\<rparr>,
         \<lparr>group = ''b'', metric = Num 0, continuous = Num 9\<rparr>,
         \<lparr>group = ''c'', metric = Num 0, continuous = Num 9\<rparr>]"
  have two: "card (set (map group ?two)) = 2" by (simp add: card_insert_if)
  have one: "card (set (map group ?one)) \<noteq> 2" by (simp add: card_insert_if)
  have three: "card (set (map group ?three)) \<noteq> 2" by (simp add: card_insert_if)
  from two group_labels_or_cardinality_error [of ?two]
  have "group_a_b ?two = Inr (''gate_30'', ''gate_40'')" by simp
  moreover from one group_labels_or_cardinality_error [of ?one]
  have "group_a_b ?one = Inl (GroupCardinality [''a''])"
    by (simp add: unique_groups_def unique_def)
  moreover from three
    group_labels_or_cardinality_error [of ?three "\<lambda>col. Num 9" "\<lambda>lo hi v. Inr v"
      "\<lambda>x y. Inr (Num 0, Num 1)" "\<lambda>i. [0, 1, 2]" 1000]
  have "analysis (\<lambda>col. Num 9) (\<lambda>lo hi v. Inr v) (\<lambda>x y. Inr (Num 0, Num 1)) (\<lambda>i. [0, 1, 2])
          ?three 1000
     = Inl (GroupCardinality [''a'', ''b'', ''c''])"
    by (simp add: unique_groups_def unique_def)
  ultimately show ?thesis by blast
qed

subsection \<open>Bootstrap: a resample without one group\<close>

lemma valid_draws_iff:
  "valid_draws df iterations draws \<longleftrightarrow>
     (\<forall>i<iterations. length (draws i) = length df \<and> (\<forall>j\<in>set (draws i). j < length df))"
  by (auto simp: valid_draws_def list_all_iff)

lemma run_bootstrapping_missing:
  assumes "i < iterations"
    and "a \<notin> set (map group (sample df (draws i))) \<or> b \<notin> set (map group (sample df (draws i)))"
  shows "run_bootstrapping df a b iterations draws = Inl (KeyError a)
         \<or> run_bootstrapping df a b iterations draws = Inl (KeyError b)"
  using assms
    boot_loop_some_missing [where k = i and n = iterations and i = 0 and a = a and b = b
      and df = df and draws = draws and acc = "[]"]
  by (simp add: run_bootstrapping_def)

text \<open>
  C1 (as amended). The loop has no skip and no skip counter. If the resample of some
  iteration lacks one of the two groups, the lookup of that group's mean raises
  \<^verbatim>\<open>KeyError\<close> and \<^verbatim>\<open>run_bootstrapping\<close> fails as a whole. If every resample
  holds both groups, it returns one difference per iteration, and
  \<^verbatim>\<open>prob_a_better\<close> is the number of positive differences divided by the number of
  iterations.
\<close>

theorem bootstrap_missing_group_fails_run:
  assumes "valid_draws df iterations draws"
  shows "((\<exists>i<iterations. group_a \<notin> set (map group (sample df (draws i)))
                         \<or> group_b \<notin> set (map group (sample df (draws i))))
          \<longrightarrow> run_bootstrapping df group_a group_b iterations draws = Inl (KeyError group_a)
              \<or> run_bootstrapping df group_a group_b iterations draws = Inl (KeyError group_b))
       \<and> ((\<forall>i<iterations. group_a \<in> set (map group (sample df (draws i)))
                          \<and> group_b \<in> set (map group (sample df (draws i))))
          \<longrightarrow> (\<exists>boot_diffs.
                run_bootstrapping df group_a group_b iterations draws = Inr boot_diffs
                \<and> length boot_diffs = iterations
                \<and> (0 < iterations \<longrightarrow>
                     prob_a_better boot_diffs =
                       Num (of_nat (length (filter (\<lambda>d. gt d (Num 0)) boot_diffs))
                            / of_nat iterations))))"
proof (intro conjI impI)
  assume "\<exists>i<iterations. group_a \<notin> set (map group (sample df (draws i)))
                         \<or> group_b \<notin> set (map group (sample df (draws i)))"
  then obtain i where "i < iterations"
    and "group_a \<notin> set (map group (sample df (draws i)))
         \<or> group_b \<notin> set (map group (sample df (draws i)))"
    by blast
  then show "run_bootstrapping df group_a group_b iterations draws = Inl (KeyError group_a)
              \<or> run_bootstrapping df group_a group_b iterations draws = Inl (KeyError group_b)"
    by (rule run_bootstrapping_missing)
next
  let ?ds = "map (\<lambda>k. fsub (group_mean (sample df (draws k)) group_a)
                            (group_mean (sample df (draws k)) group_b)) [0..<iterations]"
  assume "\<forall>i<iterations. group_a \<in> set (map group (sample df (draws i)))
                          \<and> group_b \<in> set (map group (sample df (draws i)))"
  then have run: "run_bootstrapping df group_a group_b iterations draws = Inr ?ds"
    by (simp add: run_bootstrapping_Inr_iff)
  have len: "length ?ds = iterations" by simp
  have "0 < iterations \<longrightarrow>
          prob_a_better ?ds =
            Num (of_nat (length (filter (\<lambda>d. gt d (Num 0)) ?ds)) / of_nat iterations)"
    by (simp add: prob_a_better_def)
  with run len show "\<exists>boot_diffs.
                run_bootstrapping df group_a group_b iterations draws = Inr boot_diffs
                \<and> length boot_diffs = iterations
                \<and> (0 < iterations \<longrightarrow>
                     prob_a_better boot_diffs =
                       Num (of_nat (length (filter (\<lambda>d. gt d (Num 0)) boot_diffs))
                            / of_nat iterations))"
    by blast
qed

theorem bootstrap_missing_group_fails_run_witness:
  "run_bootstrapping
     [\<lparr>group = ''A'', metric = Num 1, continuous = Num 1\<rparr>,
      \<lparr>group = ''B'', metric = Num 0, continuous = Num 2\<rparr>]
     ''A'' ''B'' 2 (\<lambda>i. if i = 1 then [1, 1] else [0, 1])
   = Inl (KeyError ''A'')
   \<and> (\<exists>boot_diffs.
        run_bootstrapping
          [\<lparr>group = ''A'', metric = Num 1, continuous = Num 1\<rparr>,
           \<lparr>group = ''B'', metric = Num 0, continuous = Num 2\<rparr>,
           \<lparr>group = ''A'', metric = Num 0, continuous = Num 3\<rparr>]
          ''A'' ''B'' 3 (\<lambda>i. if i = 1 then [0, 1, 0] else [0, 1, 2])
        = Inr boot_diffs
        \<and> length boot_diffs = 3
        \<and> prob_a_better boot_diffs =
            Num (of_nat (length (filter (\<lambda>d. gt d (Num 0)) boot_diffs)) / 3))"
proof -
  let ?df2 = "[\<lparr>group = ''A'', metric = Num 1, continuous = Num 1\<rparr>,
      \<lparr>group = ''B'', metric = Num 0, continuous = Num 2\<rparr>]"
  let ?d2 = "\<lambda>i::nat. if i = 1 then [1, 1] else [0, 1::nat]"
  let ?df3 = "[\<lparr>group = ''A'', metric = Num 1, continuous = Num 1\<rparr>,
           \<lparr>group = ''B'', metric = Num 0, continuous = Num 2\<rparr>,
           \<lparr>group = ''A'', metric = Num 0, continuous = Num 3\<rparr>]"
  let ?d3 = "\<lambda>i::nat. if i = 1 then [0, 1, 0] else [0, 1, 2::nat]"
  have v2: "valid_draws ?df2 2 ?d2"
    by (simp add: valid_draws_def numeral_2_eq_2)
  have miss: "\<exists>i<2. ''A'' \<notin> set (map group (sample ?df2 (?d2 i)))
                    \<or> ''B'' \<notin> set (map group (sample ?df2 (?d2 i)))"
    by (rule exI [of _ 1]) (simp add: sample_def)
  have "''B'' \<in> set (map group (sample ?df2 (?d2 1)))"
    by (simp add: sample_def)
  then have nb: "run_bootstrapping ?df2 ''A'' ''B'' 2 ?d2 \<noteq> Inl (KeyError ''B'')"
    by (simp add: run_bootstrapping_def numeral_2_eq_2 boot_diff_cases sample_def)
  from bootstrap_missing_group_fails_run [OF v2, of "''A''" "''B''"]
  have "(\<exists>i<2. ''A'' \<notin> set (map group (sample ?df2 (?d2 i)))
                    \<or> ''B'' \<notin> set (map group (sample ?df2 (?d2 i))))
        \<longrightarrow> run_bootstrapping ?df2 ''A'' ''B'' 2 ?d2 = Inl (KeyError ''A'')
            \<or> run_bootstrapping ?df2 ''A'' ''B'' 2 ?d2 = Inl (KeyError ''B'')"
    by (rule conjunct1)
  from this miss
  have "run_bootstrapping ?df2 ''A'' ''B'' 2 ?d2 = Inl (KeyError ''A'')
            \<or> run_bootstrapping ?df2 ''A'' ''B'' 2 ?d2 = Inl (KeyError ''B'')"
    by (rule mp)
  with nb have first: "run_bootstrapping ?df2 ''A'' ''B'' 2 ?d2 = Inl (KeyError ''A'')"
    by (elim disjE) simp_all
  have v3: "valid_draws ?df3 3 ?d3"
    by (simp add: valid_draws_def numeral_3_eq_3)
  have all: "\<forall>i<3. ''A'' \<in> set (map group (sample ?df3 (?d3 i)))
                  \<and> ''B'' \<in> set (map group (sample ?df3 (?d3 i)))"
    by (simp add: sample_def)
  from bootstrap_missing_group_fails_run [OF v3, of "''A''" "''B''"]
  have "(\<forall>i<3. ''A'' \<in> set (map group (sample ?df3 (?d3 i)))
                  \<and> ''B'' \<in> set (map group (sample ?df3 (?d3 i))))
        \<longrightarrow> (\<exists>boot_diffs. run_bootstrapping ?df3 ''A'' ''B'' 3 ?d3 = Inr boot_diffs
              \<and> length boot_diffs = 3
              \<and> (0 < (3::nat) \<longrightarrow> prob_a_better boot_diffs =
                   Num (of_nat (length (filter (\<lambda>d. gt d (Num 0)) boot_diffs)) / of_nat 3)))"
    by (rule conjunct2)
  from this all
  have "\<exists>boot_diffs. run_bootstrapping ?df3 ''A'' ''B'' 3 ?d3 = Inr boot_diffs
              \<and> length boot_diffs = 3
              \<and> (0 < (3::nat) \<longrightarrow> prob_a_better boot_diffs =
                   Num (of_nat (length (filter (\<lambda>d. gt d (Num 0)) boot_diffs)) / of_nat 3))"
    by (rule mp)
  then have "\<exists>boot_diffs. run_bootstrapping ?df3 ''A'' ''B'' 3 ?d3 = Inr boot_diffs
        \<and> length boot_diffs = 3
        \<and> prob_a_better boot_diffs =
            Num (of_nat (length (filter (\<lambda>d. gt d (Num 0)) boot_diffs)) / 3)"
    by simp
  with first show ?thesis by (rule conjI)
qed

text \<open>
  The claim as stated fails: with two usable resamples and one that holds group A only,
  the run does not skip the degenerate iteration, it ends in a \<^verbatim>\<open>KeyError\<close>.
\<close>

theorem bootstrap_skip_counterexample:
  "valid_draws
     [\<lparr>group = ''A'', metric = Num 1, continuous = Num 1\<rparr>,
      \<lparr>group = ''B'', metric = Num 0, continuous = Num 2\<rparr>]
     3 (\<lambda>i. if i = 1 then [0, 0] else [0, 1])
   \<and> map group (sample
        [\<lparr>group = ''A'', metric = Num 1, continuous = Num 1\<rparr>,
         \<lparr>group = ''B'', metric = Num 0, continuous = Num 2\<rparr>] [0, 0]) = [''A'', ''A'']
   \<and> run_bootstrapping
        [\<lparr>group = ''A'', metric = Num 1, continuous = Num 1\<rparr>,
         \<lparr>group = ''B'', metric = Num 0, continuous = Num 2\<rparr>]
        ''A'' ''B'' 3 (\<lambda>i. if i = 1 then [0, 0] else [0, 1])
      = Inl (KeyError ''B'')"
  by (simp add: valid_draws_def run_bootstrapping_def numeral_3_eq_3 boot_diff_cases sample_def)

subsection \<open>The script as a whole\<close>

lemma analysis_Inr:
  assumes "analysis quantile slider mannwhitneyu draws df_raw iterations = Inr rep"
  obtains a b t rd boot u p where
    "group_a_b df_raw = Inr (a, b)"
    "threshold quantile slider df_raw = Inr t"
    "raw_diff (df_clean df_raw t) a b = Inr rd"
    "run_bootstrapping (df_clean df_raw t) a b iterations draws = Inr boot"
    "mannwhitneyu (map continuous (filter (\<lambda>r. group r = a) (df_clean df_raw t)))
                  (map continuous (filter (\<lambda>r. group r = b) (df_clean df_raw t))) = Inr (u, p)"
    "rep = \<lparr> r_group_a = a, r_group_b = b, r_threshold = t,
             r_df_clean = df_clean df_raw t,
             r_removed_count = removed_count df_raw t,
             r_raw_diff = rd,
             r_boot_diffs = boot,
             r_prob_a_better = prob_a_better boot,
             r_recommendation = recommendation (prob_a_better boot),
             r_u_stat = u, r_u_pval = p,
             r_engagement_significant = engagement_significant p \<rparr>"
  using assms
  by (auto simp: analysis_def split: sum.splits prod.splits)

subsection \<open>Decision thresholds\<close>

lemma recommendation_A: "recommendation p = A_WINS \<longleftrightarrow> gt p (Num (95 / 100))"
  by (simp add: recommendation_def)

lemma recommendation_B: "recommendation p = B_WINS \<longleftrightarrow> lt p (Num (5 / 100))"
  by (cases p) (auto simp: recommendation_def gt_def)

lemma recommendation_I:
  "recommendation p = INCONCLUSIVE \<longleftrightarrow> \<not> gt p (Num (95 / 100)) \<and> \<not> lt p (Num (5 / 100))"
  by (simp add: recommendation_def)

text \<open>
  C3. The recommendation is A_WINS exactly when the probability is above 0.95, B_WINS
  exactly when it is below 0.05 and INCONCLUSIVE otherwise; the engagement result is
  significant exactly when the p-value is below 0.05. Both comparisons are strict (at
  0.95 and at 0.05 the recommendation is INCONCLUSIVE, at 0.05 the engagement result is
  not significant; a NaN passes no comparison). The two outcomes are independent: in
  a report of the analysis the recommendation is a function of the probability alone and
  the significance a function of the p-value alone.
\<close>

theorem decision_thresholds:
  "(recommendation p = A_WINS \<longleftrightarrow> gt p (Num (95 / 100)))
   \<and> (recommendation p = B_WINS \<longleftrightarrow> lt p (Num (5 / 100)))
   \<and> (recommendation p = INCONCLUSIVE \<longleftrightarrow> \<not> gt p (Num (95 / 100)) \<and> \<not> lt p (Num (5 / 100)))
   \<and> (engagement_significant u_pval \<longleftrightarrow> lt u_pval (Num (5 / 100)))
   \<and> recommendation (Num (95 / 100)) = INCONCLUSIVE
   \<and> recommendation (Num (5 / 100)) = INCONCLUSIVE
   \<and> \<not> engagement_significant (Num (5 / 100))
   \<and> (analysis quantile slider mannwhitneyu draws df_raw iterations = Inr rep \<longrightarrow>
        r_recommendation rep = recommendation (r_prob_a_better rep)
        \<and> r_engagement_significant rep = engagement_significant (r_u_pval rep))"
proof -
  have "analysis quantile slider mannwhitneyu draws df_raw iterations = Inr rep \<longrightarrow>
        r_recommendation rep = recommendation (r_prob_a_better rep)
        \<and> r_engagement_significant rep = engagement_significant (r_u_pval rep)"
    by (auto elim!: analysis_Inr)
  moreover have "recommendation (Num (95 / 100)) = INCONCLUSIVE"
    by (simp add: recommendation_def gt_def)
  moreover have "recommendation (Num (5 / 100)) = INCONCLUSIVE"
    by (simp add: recommendation_def gt_def)
  moreover have "\<not> engagement_significant (Num (5 / 100))"
    by (simp add: engagement_significant_def)
  moreover have "engagement_significant u_pval \<longleftrightarrow> lt u_pval (Num (5 / 100))"
    by (simp add: engagement_significant_def)
  ultimately show ?thesis
    using recommendation_A [of p] recommendation_B [of p] recommendation_I [of p]
    by blast
qed

theorem decision_thresholds_witness:
  "recommendation (Num (951 / 1000)) = A_WINS
   \<and> recommendation (Num (49 / 1000)) = B_WINS
   \<and> recommendation NaN = INCONCLUSIVE
   \<and> engagement_significant (Num (49 / 1000))
   \<and> \<not> engagement_significant NaN
   \<and> analysis (\<lambda>col. Num 7) (\<lambda>lo hi v. Inr v) (\<lambda>x y. Inr (Num 1, Num 1)) (\<lambda>i. [0, 1, 2])
        [\<lparr>group = ''A'', metric = Num 1, continuous = Num 1\<rparr>,
         \<lparr>group = ''B'', metric = Num 0, continuous = Num 2\<rparr>,
         \<lparr>group = ''A'', metric = Num 0, continuous = Num 3\<rparr>,
         \<lparr>group = ''B'', metric = Num 0, continuous = Num 7\<rparr>,
         \<lparr>group = ''A'', metric = Num 1, continuous = Num 7\<rparr>] 2
      = Inr \<lparr> r_group_a = ''A'', r_group_b = ''B'', r_threshold = 7,
              r_df_clean =
                [\<lparr>group = ''A'', metric = Num 1, continuous = Num 1\<rparr>,
                 \<lparr>group = ''B'', metric = Num 0, continuous = Num 2\<rparr>,
                 \<lparr>group = ''A'', metric = Num 0, continuous = Num 3\<rparr>],
              r_removed_count = 2,
              r_raw_diff = Num (1 / 2),
              r_boot_diffs = [Num (1 / 2), Num (1 / 2)],
              r_prob_a_better = Num 1,
              r_recommendation = A_WINS,
              r_u_stat = Num 1, r_u_pval = Num 1,
              r_engagement_significant = False \<rparr>
   \<and> recommendation (Num 1) = A_WINS
   \<and> \<not> engagement_significant (Num 1)"
proof -
  let ?q = "\<lambda>col::pyfloat list. Num 7"
  let ?sl = "\<lambda>(lo::int) (hi::int) (v::int). Inr v :: error + int"
  let ?mwu = "\<lambda>(x::pyfloat list) (y::pyfloat list). Inr (Num 1, Num 1) :: error + pyfloat \<times> pyfloat"
  let ?draws = "\<lambda>i::nat. [0, 1, 2::nat]"
  let ?df = "[\<lparr>group = ''A'', metric = Num 1, continuous = Num 1\<rparr>,
         \<lparr>group = ''B'', metric = Num 0, continuous = Num 2\<rparr>,
         \<lparr>group = ''A'', metric = Num 0, continuous = Num 3\<rparr>,
         \<lparr>group = ''B'', metric = Num 0, continuous = Num 7\<rparr>,
         \<lparr>group = ''A'', metric = Num 1, continuous = Num 7\<rparr>]"
  let ?rep = "\<lparr> r_group_a = ''A'', r_group_b = ''B'', r_threshold = 7,
              r_df_clean =
                [\<lparr>group = ''A'', metric = Num 1, continuous = Num 1\<rparr>,
                 \<lparr>group = ''B'', metric = Num 0, continuous = Num 2\<rparr>,
                 \<lparr>group = ''A'', metric = Num 0, continuous = Num 3\<rparr>],
              r_removed_count = 2,
              r_raw_diff = Num (1 / 2),
              r_boot_diffs = [Num (1 / 2), Num (1 / 2)],
              r_prob_a_better = Num 1,
              r_recommendation = A_WINS,
              r_u_stat = Num 1, r_u_pval = Num 1,
              r_engagement_significant = False \<rparr>"
  have run: "analysis ?q ?sl ?mwu ?draws ?df 2 = Inr ?rep"
    by code_simp
  note t = decision_thresholds [of _ _ ?q ?sl ?mwu ?draws ?df 2 ?rep]
  have a: "recommendation (Num (951 / 1000)) = A_WINS"
    using t [of "Num (951 / 1000)"] by (simp add: gt_def)
  have b: "recommendation (Num (49 / 1000)) = B_WINS"
    using t [of "Num (49 / 1000)"] by simp
  have c: "recommendation NaN = INCONCLUSIVE"
    using t [of NaN] by (simp add: gt_def)
  have d: "engagement_significant (Num (49 / 1000))"
    using t [of _ "Num (49 / 1000)"] by simp
  have e: "\<not> engagement_significant NaN"
    using t [of _ NaN] by simp
  have "analysis ?q ?sl ?mwu ?draws ?df 2 = Inr ?rep \<longrightarrow>
        r_recommendation ?rep = recommendation (r_prob_a_better ?rep)
        \<and> r_engagement_significant ?rep = engagement_significant (r_u_pval ?rep)"
    using t [of NaN NaN] by (elim conjE)
  from this run
  have both: "r_recommendation ?rep = recommendation (r_prob_a_better ?rep)
        \<and> r_engagement_significant ?rep = engagement_significant (r_u_pval ?rep)"
    by (rule mp)
  from both [THEN conjunct1] have f: "recommendation (Num 1) = A_WINS"
    by (simp only: report.simps)
  from both [THEN conjunct2] have g: "\<not> engagement_significant (Num 1)"
    by (simp only: report.simps simp_thms)
  from a b c d e run f g show ?thesis by (intro conjI)
qed

subsection \<open>The default threshold\<close>

text \<open>
  C5. The default of the slider on a column with the values 0, 10, 5000 and 5000,
  whose 99th percentile is 5000 (the two largest values coincide): the label announces
  \<^verbatim>\<open>int(q99)\<close>, which is 5000, and the script passes 3000 as the default, which an
  untouched slider returns as the threshold; the two rows at 5000 are removed.
\<close>

theorem default_threshold_at_outlier_column:
  "py_int (q99 (\<lambda>col. Num 5000)
     [\<lparr>group = ''A'', metric = Num 1, continuous = Num 0\<rparr>,
      \<lparr>group = ''B'', metric = Num 0, continuous = Num 10\<rparr>,
      \<lparr>group = ''A'', metric = Num 0, continuous = Num 5000\<rparr>,
      \<lparr>group = ''B'', metric = Num 1, continuous = Num 5000\<rparr>]) = Inr 5000
   \<and> slider_args (\<lambda>col. Num 5000)
     [\<lparr>group = ''A'', metric = Num 1, continuous = Num 0\<rparr>,
      \<lparr>group = ''B'', metric = Num 0, continuous = Num 10\<rparr>,
      \<lparr>group = ''A'', metric = Num 0, continuous = Num 5000\<rparr>,
      \<lparr>group = ''B'', metric = Num 1, continuous = Num 5000\<rparr>] = Inr (0, 5000, 3000)
   \<and> threshold (\<lambda>col. Num 5000) (\<lambda>lo hi v. Inr v)
     [\<lparr>group = ''A'', metric = Num 1, continuous = Num 0\<rparr>,
      \<lparr>group = ''B'', metric = Num 0, continuous = Num 10\<rparr>,
      \<lparr>group = ''A'', metric = Num 0, continuous = Num 5000\<rparr>,
      \<lparr>group = ''B'', metric = Num 1, continuous = Num 5000\<rparr>] = Inr 3000
   \<and> df_clean
     [\<lparr>group = ''A'', metric = Num 1, continuous = Num 0\<rparr>,
      \<lparr>group = ''B'', metric = Num 0, continuous = Num 10\<rparr>,
      \<lparr>group = ''A'', metric = Num 0, continuous = Num 5000\<rparr>,
      \<lparr>group = ''B'', metric = Num 1, continuous = Num 5000\<rparr>] 3000
     = [\<lparr>group = ''A'', metric = Num 1, continuous = Num 0\<rparr>,
        \<lparr>group = ''B'', metric = Num 0, continuous = Num 10\<rparr>]"
  by code_simp

subsection \<open>Order of the group check and the filter\<close>

lemma group_a_b_Inr:
  assumes "group_a_b df_raw = Inr (a, b)"
  shows "unique_groups df_raw = [a, b]"
proof -
  from assms have len: "length (unique_groups df_raw) = 2"
    and a: "a = unique_groups df_raw ! 0" and b: "b = unique_groups df_raw ! 1"
    by (auto simp: group_a_b_def split: if_splits)
  from len obtain x y where "unique_groups df_raw = [x, y]"
    by (cases "unique_groups df_raw" rule: list.exhaust)
       (auto simp: length_Suc_conv)
  with a b show ?thesis by simp
qed

lemma group_a_b_first_encountered:
  assumes "group_a_b df_raw = Inr (a, b)"
  shows "a = hd (map group df_raw)"
    and "b = hd (filter (\<lambda>g. g \<noteq> hd (map group df_raw)) (map group df_raw))"
proof -
  from group_a_b_Inr [OF assms] have u: "unique (map group df_raw) = [a, b]"
    by (simp add: unique_groups_def)
  then have "card (set (map group df_raw)) = 2"
    using length_unique [of "map group df_raw"] by simp
  from unique_two [OF this] u
  show "a = hd (map group df_raw)"
    and "b = hd (filter (\<lambda>g. g \<noteq> hd (map group df_raw)) (map group df_raw))"
    by simp_all
qed

text \<open>
  C7 (as amended). The group check runs on the raw frame, before the outlier filter:
  the two labels of a report are the distinct labels of the raw frame in the order of
  their first appearance, the cleaned frame is the raw frame filtered afterwards, and
  a raw frame whose number of distinct labels is not two stops the analysis whatever
  the filter would leave.
\<close>

theorem group_check_on_raw_frame:
  "(analysis quantile slider mannwhitneyu draws df_raw iterations = Inr rep \<longrightarrow>
      unique_groups df_raw = [r_group_a rep, r_group_b rep]
      \<and> r_df_clean rep = df_clean df_raw (r_threshold rep))
   \<and> (length (unique_groups df_raw) \<noteq> 2 \<longrightarrow>
      analysis quantile slider mannwhitneyu draws df_raw iterations
        = Inl (GroupCardinality (unique_groups df_raw)))"
proof (intro conjI impI)
  assume "analysis quantile slider mannwhitneyu draws df_raw iterations = Inr rep"
  then show "unique_groups df_raw = [r_group_a rep, r_group_b rep]"
    by (elim analysis_Inr) (simp add: group_a_b_Inr)
next
  assume "analysis quantile slider mannwhitneyu draws df_raw iterations = Inr rep"
  then show "r_df_clean rep = df_clean df_raw (r_threshold rep)"
    by (elim analysis_Inr) simp
next
  assume "length (unique_groups df_raw) \<noteq> 2"
  then have "group_a_b df_raw = Inl (GroupCardinality (unique_groups df_raw))"
    by (simp add: group_a_b_def)
  then show "analysis quantile slider mannwhitneyu draws df_raw iterations
        = Inl (GroupCardinality (unique_groups df_raw))"
    by (rule analysis_group_cardinality)
qed

theorem group_check_on_raw_frame_witness:
  "analysis (\<lambda>col. Num 30) (\<lambda>lo hi v. Inr v) (\<lambda>x y. Inr (Num 0, Num 1)) (\<lambda>i. [1, 0])
        [\<lparr>group = ''B'', metric = Num 1, continuous = Num 1\<rparr>,
         \<lparr>group = ''A'', metric = Num 0, continuous = Num 2\<rparr>,
         \<lparr>group = ''B'', metric = Num 0, continuous = Num 30\<rparr>,
         \<lparr>group = ''A'', metric = Num 0, continuous = Num 30\<rparr>] 2
     = Inr \<lparr> r_group_a = ''B'', r_group_b = ''A'', r_threshold = 30,
             r_df_clean = [\<lparr>group = ''B'', metric = Num 1, continuous = Num 1\<rparr>,
                           \<lparr>group = ''A'', metric = Num 0, continuous = Num 2\<rparr>],
             r_removed_count = 2,
             r_raw_diff = Num 1,
             r_boot_diffs = [Num 1, Num 1],
             r_prob_a_better = Num 1,
             r_recommendation = A_WINS,
             r_u_stat = Num 0, r_u_pval = Num 1,
             r_engagement_significant = False \<rparr>
   \<and> unique_groups
        [\<lparr>group = ''B'', metric = Num 1, continuous = Num 1\<rparr>,
         \<lparr>group = ''A'', metric = Num 0, continuous = Num 2\<rparr>,
         \<lparr>group = ''B'', metric = Num 0, continuous = Num 30\<rparr>,
         \<lparr>group = ''A'', metric = Num 0, continuous = Num 30\<rparr>] = [''B'', ''A'']
   \<and> df_clean
        [\<lparr>group = ''B'', metric = Num 1, continuous = Num 1\<rparr>,
         \<lparr>group = ''A'', metric = Num 0, continuous = Num 2\<rparr>,
         \<lparr>group = ''B'', metric = Num 0, continuous = Num 30\<rparr>,
         \<lparr>group = ''A'', metric = Num 0, continuous = Num 30\<rparr>] 30
      = [\<lparr>group = ''B'', metric = Num 1, continuous = Num 1\<rparr>,
         \<lparr>group = ''A'', metric = Num 0, continuous = Num 2\<rparr>]
   \<and> analysis (\<lambda>col. Num 1) (\<lambda>lo hi v. Inr v) (\<lambda>x y. Inr (Num 0, Num 1)) (\<lambda>i. [1, 0])
        [\<lparr>group = ''A'', metric = Num 1, continuous = Num 1\<rparr>] 2
      = Inl (GroupCardinality [''A''])"
proof -
  let ?q = "\<lambda>col::pyfloat list. Num 30"
  let ?q1 = "\<lambda>col::pyfloat list. Num 1"
  let ?sl = "\<lambda>(lo::int) (hi::int) (v::int). Inr v :: error + int"
  let ?mwu = "\<lambda>(x::pyfloat list) (y::pyfloat list). Inr (Num 0, Num 1) :: error + pyfloat \<times> pyfloat"
  let ?draws = "\<lambda>i::nat. [1, 0::nat]"
  let ?df = "[\<lparr>group = ''B'', metric = Num 1, continuous = Num 1\<rparr>,
         \<lparr>group = ''A'', metric = Num 0, continuous = Num 2\<rparr>,
         \<lparr>group = ''B'', metric = Num 0, continuous = Num 30\<rparr>,
         \<lparr>group = ''A'', metric = Num 0, continuous = Num 30\<rparr>]"
  let ?rep = "\<lparr> r_group_a = ''B'', r_group_b = ''A'', r_threshold = 30,
             r_df_clean = [\<lparr>group = ''B'', metric = Num 1, continuous = Num 1\<rparr>,
                           \<lparr>group = ''A'', metric = Num 0, continuous = Num 2\<rparr>],
             r_removed_count = 2,
             r_raw_diff = Num 1,
             r_boot_diffs = [Num 1, Num 1],
             r_prob_a_better = Num 1,
             r_recommendation = A_WINS,
             r_u_stat = Num 0, r_u_pval = Num 1,
             r_engagement_significant = False \<rparr>"
  let ?one = "[\<lparr>group = ''A'', metric = Num 1, continuous = Num 1\<rparr>]"
  have run: "analysis ?q ?sl ?mwu ?draws ?df 2 = Inr ?rep"
    by code_simp
  have "analysis ?q ?sl ?mwu ?draws ?df 2 = Inr ?rep \<longrightarrow>
      unique_groups ?df = [r_group_a ?rep, r_group_b ?rep]
      \<and> r_df_clean ?rep = df_clean ?df (r_threshold ?rep)"
    by (rule group_check_on_raw_frame [THEN conjunct1])
  from this run
  have u: "unique_groups ?df = [r_group_a ?rep, r_group_b ?rep]
        \<and> r_df_clean ?rep = df_clean ?df (r_threshold ?rep)"
    by (rule mp)
  from u [THEN conjunct1] have labels: "unique_groups ?df = [''B'', ''A'']"
    by (simp only: report.simps)
  from u [THEN conjunct2] have clean: "df_clean ?df 30 =
      [\<lparr>group = ''B'', metric = Num 1, continuous = Num 1\<rparr>,
       \<lparr>group = ''A'', metric = Num 0, continuous = Num 2\<rparr>]"
    by (simp only: report.simps)
  have len: "length (unique_groups ?one) \<noteq> 2"
    by (simp add: unique_groups_def unique_def)
  have "length (unique_groups ?one) \<noteq> 2 \<longrightarrow>
      analysis ?q1 ?sl ?mwu ?draws ?one 2 = Inl (GroupCardinality (unique_groups ?one))"
    by (rule group_check_on_raw_frame [THEN conjunct2])
  from this len
  have "analysis ?q1 ?sl ?mwu ?draws ?one 2 = Inl (GroupCardinality (unique_groups ?one))"
    by (rule mp)
  then have second: "analysis ?q1 ?sl ?mwu ?draws ?one 2 = Inl (GroupCardinality [''A''])"
    by (simp add: unique_groups_def unique_def)
  from run labels clean second show ?thesis by (intro conjI)
qed

text \<open>
  The claim as stated fails: the raw frame below has three labels and its cleaned frame
  (slider moved to 50) has exactly two. A check on the cleaned frame would return them;
  the script checks the raw frame and stops.
\<close>

theorem group_check_after_filter_counterexample:
  "df_clean
     [\<lparr>group = ''A'', metric = Num 1, continuous = Num 1\<rparr>,
      \<lparr>group = ''B'', metric = Num 0, continuous = Num 2\<rparr>,
      \<lparr>group = ''C'', metric = Num 0, continuous = Num 100\<rparr>,
      \<lparr>group = ''C'', metric = Num 1, continuous = Num 100\<rparr>] 50
   = [\<lparr>group = ''A'', metric = Num 1, continuous = Num 1\<rparr>,
      \<lparr>group = ''B'', metric = Num 0, continuous = Num 2\<rparr>]
   \<and> group_a_b
     [\<lparr>group = ''A'', metric = Num 1, continuous = Num 1\<rparr>,
      \<lparr>group = ''B'', metric = Num 0, continuous = Num 2\<rparr>] = Inr (''A'', ''B'')
   \<and> analysis (\<lambda>col. Num 100) (\<lambda>lo hi v. Inr 50) (\<lambda>x y. Inr (Num 0, Num 1)) (\<lambda>i. [0, 1])
     [\<lparr>group = ''A'', metric = Num 1, continuous = Num 1\<rparr>,
      \<lparr>group = ''B'', metric = Num 0, continuous = Num 2\<rparr>,
      \<lparr>group = ''C'', metric = Num 0, continuous = Num 100\<rparr>,
      \<lparr>group = ''C'', metric = Num 1, continuous = Num 100\<rparr>] 1000
   = Inl (GroupCardinality [''A'', ''B'', ''C''])"
  by code_simp

subsection \<open>A group that the filter empties\<close>

lemma analysis_missing_group:
  assumes "group_a_b df_raw = Inr (a, b)" and "threshold quantile slider df_raw = Inr t"
    and "a \<notin> set (map group (df_clean df_raw t)) \<or> b \<notin> set (map group (df_clean df_raw t))"
  shows "analysis quantile slider mannwhitneyu draws df_raw iterations
         = Inl (KeyError (if a \<notin> set (map group (df_clean df_raw t)) then a else b))"
  using assms by (auto simp: analysis_def raw_diff_cases)

lemma analysis_rank_test_nonempty:
  assumes "\<forall>x y. x \<noteq> [] \<and> y \<noteq> [] \<longrightarrow> mannwhitneyu x y = mannwhitneyu' x y"
  shows "analysis quantile slider mannwhitneyu draws df_raw iterations
         = analysis quantile slider mannwhitneyu' draws df_raw iterations"
proof (cases "group_a_b df_raw")
  case (Inl e)
  then show ?thesis by (simp add: analysis_def)
next
  case (Inr ab)
  obtain a b where ab: "ab = (a, b)" by (cases ab)
  show ?thesis
  proof (cases "threshold quantile slider df_raw")
    case (Inl e)
    with Inr ab show ?thesis by (simp add: analysis_def)
  next
    case t: (Inr t)
    show ?thesis
    proof (cases "a \<in> set (map group (df_clean df_raw t)) \<and> b \<in> set (map group (df_clean df_raw t))")
      case False
      with Inr ab t show ?thesis
        by (simp add: analysis_missing_group)
    next
      case True
      then have "map continuous (filter (\<lambda>r. group r = a) (df_clean df_raw t)) \<noteq> []"
        and "map continuous (filter (\<lambda>r. group r = b) (df_clean df_raw t)) \<noteq> []"
        by (auto simp: filter_empty_conv)
      with assms have "mannwhitneyu
             (map continuous (filter (\<lambda>r. group r = a) (df_clean df_raw t)))
             (map continuous (filter (\<lambda>r. group r = b) (df_clean df_raw t)))
          = mannwhitneyu'
             (map continuous (filter (\<lambda>r. group r = a) (df_clean df_raw t)))
             (map continuous (filter (\<lambda>r. group r = b) (df_clean df_raw t)))"
        by blast
      with Inr ab t show ?thesis
        by (simp add: analysis_def split: sum.split)
    qed
  qed
qed

text \<open>
  C9 (as amended). The script has no empty-group check at the rank test. When the filter
  leaves one of the two groups without rows, the run does fail instead of returning a
  result, but with the \<^verbatim>\<open>KeyError\<close> of the missing label, raised where the raw
  rates are looked up (line 154), before the rank test is reached. The rank test only
  ever gets two non-empty samples: what it would do on an empty one has no effect on
  the analysis.
\<close>

theorem empty_group_fails_before_rank_test:
  "(group_a_b df_raw = Inr (a, b) \<and> threshold quantile slider df_raw = Inr t
      \<and> (a \<notin> set (map group (df_clean df_raw t)) \<or> b \<notin> set (map group (df_clean df_raw t)))
     \<longrightarrow> analysis quantile slider mannwhitneyu draws df_raw iterations
          = Inl (KeyError (if a \<notin> set (map group (df_clean df_raw t)) then a else b)))
   \<and> ((\<forall>x y. x \<noteq> [] \<and> y \<noteq> [] \<longrightarrow> mannwhitneyu x y = mannwhitneyu' x y)
     \<longrightarrow> analysis quantile slider mannwhitneyu draws df_raw iterations
          = analysis quantile slider mannwhitneyu' draws df_raw iterations)"
  using analysis_missing_group [of df_raw a b quantile slider t mannwhitneyu draws iterations]
    analysis_rank_test_nonempty [of mannwhitneyu mannwhitneyu' quantile slider draws df_raw
      iterations]
  by blast


theorem empty_group_fails_before_rank_test_witness:
  "analysis (\<lambda>col. Num 100) (\<lambda>lo hi v. Inr v)
     (\<lambda>x y. if x = [] \<or> y = [] then Inr (NaN, NaN) else Inr (Num 0, Num 1))
     (\<lambda>i. [0])
     [\<lparr>group = ''A'', metric = Num 1, continuous = Num 1\<rparr>,
      \<lparr>group = ''B'', metric = Num 0, continuous = Num 100\<rparr>,
      \<lparr>group = ''B'', metric = Num 1, continuous = Num 100\<rparr>] 1000
   = Inl (KeyError ''B'')
   \<and> analysis (\<lambda>col. Num 100) (\<lambda>lo hi v. Inr v)
     (\<lambda>x y. if x = [] \<or> y = [] then Inr (NaN, NaN) else Inr (Num 0, Num 1))
     (\<lambda>i. [0, 1])
     [\<lparr>group = ''A'', metric = Num 1, continuous = Num 1\<rparr>,
      \<lparr>group = ''B'', metric = Num 0, continuous = Num 2\<rparr>,
      \<lparr>group = ''B'', metric = Num 0, continuous = Num 100\<rparr>,
      \<lparr>group = ''B'', metric = Num 1, continuous = Num 100\<rparr>] 1
   = analysis (\<lambda>col. Num 100) (\<lambda>lo hi v. Inr v)
     (\<lambda>x y. if x = [] \<or> y = [] then Inl (LibraryError ''empty'') else Inr (Num 0, Num 1))
     (\<lambda>i. [0, 1])
     [\<lparr>group = ''A'', metric = Num 1, continuous = Num 1\<rparr>,
      \<lparr>group = ''B'', metric = Num 0, continuous = Num 2\<rparr>,
      \<lparr>group = ''B'', metric = Num 0, continuous = Num 100\<rparr>,
      \<lparr>group = ''B'', metric = Num 1, continuous = Num 100\<rparr>] 1"
proof -
  let ?q = "\<lambda>col::pyfloat list. Num 100"
  let ?sl = "\<lambda>(lo::int) (hi::int) (v::int). Inr v :: error + int"
  let ?df = "[\<lparr>group = ''A'', metric = Num 1, continuous = Num 1\<rparr>,
      \<lparr>group = ''B'', metric = Num 0, continuous = Num 100\<rparr>,
      \<lparr>group = ''B'', metric = Num 1, continuous = Num 100\<rparr>]"
  let ?df2 = "[\<lparr>group = ''A'', metric = Num 1, continuous = Num 1\<rparr>,
      \<lparr>group = ''B'', metric = Num 0, continuous = Num 2\<rparr>,
      \<lparr>group = ''B'', metric = Num 0, continuous = Num 100\<rparr>,
      \<lparr>group = ''B'', metric = Num 1, continuous = Num 100\<rparr>]"
  let ?m1 = "\<lambda>(x::pyfloat list) (y::pyfloat list).
      if x = [] \<or> y = [] then Inr (NaN, NaN) else (Inr (Num 0, Num 1) :: error + pyfloat \<times> pyfloat)"
  let ?m2 = "\<lambda>(x::pyfloat list) (y::pyfloat list).
      if x = [] \<or> y = [] then Inl (LibraryError ''empty'')
      else (Inr (Num 0, Num 1) :: error + pyfloat \<times> pyfloat)"
  let ?draws = "\<lambda>i::nat. [0::nat]"
  let ?draws2 = "\<lambda>i::nat. [0, 1::nat]"
  have g: "group_a_b ?df = Inr (''A'', ''B'')" by code_simp
  have t: "threshold ?q ?sl ?df = Inr 100" by code_simp
  have c: "df_clean ?df 100 = [\<lparr>group = ''A'', metric = Num 1, continuous = Num 1\<rparr>]"
    by code_simp
  have gone: "''A'' \<notin> set (map group (df_clean ?df 100)) \<or> ''B'' \<notin> set (map group (df_clean ?df 100))"
    by (simp add: c)
  have "group_a_b ?df = Inr (''A'', ''B'') \<and> threshold ?q ?sl ?df = Inr 100
      \<and> (''A'' \<notin> set (map group (df_clean ?df 100)) \<or> ''B'' \<notin> set (map group (df_clean ?df 100)))
     \<longrightarrow> analysis ?q ?sl ?m1 ?draws ?df 1000
          = Inl (KeyError (if ''A'' \<notin> set (map group (df_clean ?df 100)) then ''A'' else ''B''))"
    by (rule empty_group_fails_before_rank_test [THEN conjunct1])
  moreover from g t gone
  have "group_a_b ?df = Inr (''A'', ''B'') \<and> threshold ?q ?sl ?df = Inr 100
      \<and> (''A'' \<notin> set (map group (df_clean ?df 100)) \<or> ''B'' \<notin> set (map group (df_clean ?df 100)))"
    by (intro conjI)
  ultimately
  have "analysis ?q ?sl ?m1 ?draws ?df 1000
          = Inl (KeyError (if ''A'' \<notin> set (map group (df_clean ?df 100)) then ''A'' else ''B''))"
    by (rule mp)
  then have first: "analysis ?q ?sl ?m1 ?draws ?df 1000 = Inl (KeyError ''B'')"
    by (simp add: c)
  have agree: "\<forall>x y. x \<noteq> [] \<and> y \<noteq> [] \<longrightarrow> ?m1 x y = ?m2 x y"
    by simp
  have "(\<forall>x y. x \<noteq> [] \<and> y \<noteq> [] \<longrightarrow> ?m1 x y = ?m2 x y)
     \<longrightarrow> analysis ?q ?sl ?m1 ?draws2 ?df2 1 = analysis ?q ?sl ?m2 ?draws2 ?df2 1"
    by (rule empty_group_fails_before_rank_test [THEN conjunct2])
  from this agree
  have second: "analysis ?q ?sl ?m1 ?draws2 ?df2 1 = analysis ?q ?sl ?m2 ?draws2 ?df2 1"
    by (rule mp)
  from first second show ?thesis by (rule conjI)
qed

text \<open>
  The claim as stated fails: on the frame below the untouched slider gives the threshold
  100 and group B has no row left; the run ends in the \<^verbatim>\<open>KeyError\<close> of line 154,
  whether the rank routine would return a result on an empty sample or raise on every
  input.
\<close>

theorem rank_test_empty_group_counterexample:
  "df_clean
     [\<lparr>group = ''A'', metric = Num 1, continuous = Num 1\<rparr>,
      \<lparr>group = ''B'', metric = Num 0, continuous = Num 100\<rparr>,
      \<lparr>group = ''B'', metric = Num 1, continuous = Num 100\<rparr>] 100
   = [\<lparr>group = ''A'', metric = Num 1, continuous = Num 1\<rparr>]
   \<and> analysis (\<lambda>col. Num 100) (\<lambda>lo hi v. Inr v) (\<lambda>x y. Inr (Num 0, Num 1)) (\<lambda>i. [0])
     [\<lparr>group = ''A'', metric = Num 1, continuous = Num 1\<rparr>,
      \<lparr>group = ''B'', metric = Num 0, continuous = Num 100\<rparr>,
      \<lparr>group = ''B'', metric = Num 1, continuous = Num 100\<rparr>] 1000
   = Inl (KeyError ''B'')
   \<and> analysis (\<lambda>col. Num 100) (\<lambda>lo hi v. Inr v) (\<lambda>x y. Inl (LibraryError ''empty group''))
     (\<lambda>i. [0])
     [\<lparr>group = ''A'', metric = Num 1, continuous = Num 1\<rparr>,
      \<lparr>group = ''B'', metric = Num 0, continuous = Num 100\<rparr>,
      \<lparr>group = ''B'', metric = Num 1, continuous = Num 100\<rparr>] 1000
   = Inl (KeyError ''B'')"
  by code_simp

subsection \<open>Orientation of the differences\<close>

lemma sample_identity: "sample df [0..<length df] = df"
  by (simp add: sample_def map_nth)

text \<open>
  C10. In a report of the analysis, group A is the label of the first row of the raw
  frame and group B the first label that differs from it; the raw difference is the
  mean of the metric over the A rows of the cleaned frame minus the mean over its B
  rows, and every bootstrap difference is the same A-minus-B expression on that
  iteration's resample. In particular an iteration that happens to draw every row once,
  in order, yields the raw difference itself.
\<close>

theorem raw_diff_same_orientation_as_bootstrap:
  assumes "analysis quantile slider mannwhitneyu draws df_raw iterations = Inr rep"
  shows "r_group_a rep = hd (map group df_raw)
    \<and> r_group_b rep = hd (filter (\<lambda>g. g \<noteq> hd (map group df_raw)) (map group df_raw))
    \<and> r_raw_diff rep = fsub (group_mean (r_df_clean rep) (r_group_a rep))
                             (group_mean (r_df_clean rep) (r_group_b rep))
    \<and> r_boot_diffs rep =
        map (\<lambda>i. fsub (group_mean (sample (r_df_clean rep) (draws i)) (r_group_a rep))
                       (group_mean (sample (r_df_clean rep) (draws i)) (r_group_b rep)))
          [0..<iterations]
    \<and> (\<forall>i<iterations. draws i = [0..<length (r_df_clean rep)]
          \<longrightarrow> r_boot_diffs rep ! i = r_raw_diff rep)"
proof -
  from assms obtain a b t rd boot u p where
    g: "group_a_b df_raw = Inr (a, b)"
    and rd: "raw_diff (df_clean df_raw t) a b = Inr rd"
    and boot: "run_bootstrapping (df_clean df_raw t) a b iterations draws = Inr boot"
    and rep: "r_group_a rep = a" "r_group_b rep = b" "r_df_clean rep = df_clean df_raw t"
      "r_raw_diff rep = rd" "r_boot_diffs rep = boot"
    by (elim analysis_Inr) simp
  let ?c = "df_clean df_raw t"
  let ?d = "\<lambda>i. fsub (group_mean (sample ?c (draws i)) a) (group_mean (sample ?c (draws i)) b)"
  from rd have rd': "rd = fsub (group_mean ?c a) (group_mean ?c b)"
    by (auto simp: raw_diff_cases split: if_splits)
  from boot have boot': "boot = map ?d [0..<iterations]"
    by (simp add: run_bootstrapping_Inr_iff)
  have same: "boot ! i = rd" if "i < iterations" "draws i = [0..<length ?c]" for i
  proof -
    from that(1) have "boot ! i = ?d i" by (simp add: boot')
    with that(2) show ?thesis by (simp add: sample_identity rd')
  qed
  from group_a_b_first_encountered [OF g] rep rd' boot' same show ?thesis
    by simp
qed


theorem raw_diff_same_orientation_as_bootstrap_witness:
  "analysis (\<lambda>col. Num 9) (\<lambda>lo hi v. Inr v) (\<lambda>x y. Inr (Num 1, Num (2 / 3)))
     (\<lambda>i. if i = 0 then [0, 1, 2, 3] else [0, 1, 0, 1])
     [\<lparr>group = ''B'', metric = Num 0, continuous = Num 1\<rparr>,
      \<lparr>group = ''A'', metric = Num 1, continuous = Num 2\<rparr>,
      \<lparr>group = ''B'', metric = Num 1, continuous = Num 3\<rparr>,
      \<lparr>group = ''A'', metric = Num 1, continuous = Num 4\<rparr>,
      \<lparr>group = ''A'', metric = Num 0, continuous = Num 9\<rparr>,
      \<lparr>group = ''B'', metric = Num 0, continuous = Num 9\<rparr>] 2
   = Inr \<lparr> r_group_a = ''B'', r_group_b = ''A'', r_threshold = 9,
           r_df_clean =
             [\<lparr>group = ''B'', metric = Num 0, continuous = Num 1\<rparr>,
              \<lparr>group = ''A'', metric = Num 1, continuous = Num 2\<rparr>,
              \<lparr>group = ''B'', metric = Num 1, continuous = Num 3\<rparr>,
              \<lparr>group = ''A'', metric = Num 1, continuous = Num 4\<rparr>],
           r_removed_count = 2,
           r_raw_diff = Num (- 1 / 2),
           r_boot_diffs = [Num (- 1 / 2), Num (- 1)],
           r_prob_a_better = Num 0,
           r_recommendation = B_WINS,
           r_u_stat = Num 1, r_u_pval = Num (2 / 3),
           r_engagement_significant = False \<rparr>
   \<and> hd (map group
        [\<lparr>group = ''B'', metric = Num 0, continuous = Num 1\<rparr>,
         \<lparr>group = ''A'', metric = Num 1, continuous = Num 2\<rparr>,
         \<lparr>group = ''B'', metric = Num 1, continuous = Num 3\<rparr>,
         \<lparr>group = ''A'', metric = Num 1, continuous = Num 4\<rparr>,
         \<lparr>group = ''A'', metric = Num 0, continuous = Num 9\<rparr>,
         \<lparr>group = ''B'', metric = Num 0, continuous = Num 9\<rparr>]) = ''B''
   \<and> fsub (group_mean
        [\<lparr>group = ''B'', metric = Num 0, continuous = Num 1\<rparr>,
         \<lparr>group = ''A'', metric = Num 1, continuous = Num 2\<rparr>,
         \<lparr>group = ''B'', metric = Num 1, continuous = Num 3\<rparr>,
         \<lparr>group = ''A'', metric = Num 1, continuous = Num 4\<rparr>] ''B'')
       (group_mean
        [\<lparr>group = ''B'', metric = Num 0, continuous = Num 1\<rparr>,
         \<lparr>group = ''A'', metric = Num 1, continuous = Num 2\<rparr>,
         \<lparr>group = ''B'', metric = Num 1, continuous = Num 3\<rparr>,
         \<lparr>group = ''A'', metric = Num 1, continuous = Num 4\<rparr>] ''A'')
     = Num (- 1 / 2)"
proof -
  let ?q = "\<lambda>col::pyfloat list. Num 9"
  let ?sl = "\<lambda>(lo::int) (hi::int) (v::int). Inr v :: error + int"
  let ?mwu = "\<lambda>(x::pyfloat list) (y::pyfloat list). Inr (Num 1, Num (2 / 3)) :: error + pyfloat \<times> pyfloat"
  let ?draws = "\<lambda>i::nat. if i = 0 then [0, 1, 2, 3] else [0, 1, 0, 1::nat]"
  let ?df = "[\<lparr>group = ''B'', metric = Num 0, continuous = Num 1\<rparr>,
      \<lparr>group = ''A'', metric = Num 1, continuous = Num 2\<rparr>,
      \<lparr>group = ''B'', metric = Num 1, continuous = Num 3\<rparr>,
      \<lparr>group = ''A'', metric = Num 1, continuous = Num 4\<rparr>,
      \<lparr>group = ''A'', metric = Num 0, continuous = Num 9\<rparr>,
      \<lparr>group = ''B'', metric = Num 0, continuous = Num 9\<rparr>]"
  let ?clean = "[\<lparr>group = ''B'', metric = Num 0, continuous = Num 1\<rparr>,
      \<lparr>group = ''A'', metric = Num 1, continuous = Num 2\<rparr>,
      \<lparr>group = ''B'', metric = Num 1, continuous = Num 3\<rparr>,
      \<lparr>group = ''A'', metric = Num 1, continuous = Num 4\<rparr>]"
  let ?rep = "\<lparr> r_group_a = ''B'', r_group_b = ''A'', r_threshold = 9,
           r_df_clean = ?clean,
           r_removed_count = 2,
           r_raw_diff = Num (- 1 / 2),
           r_boot_diffs = [Num (- 1 / 2), Num (- 1)],
           r_prob_a_better = Num 0,
           r_recommendation = B_WINS,
           r_u_stat = Num 1, r_u_pval = Num (2 / 3),
           r_engagement_significant = False \<rparr>"
  have run: "analysis ?q ?sl ?mwu ?draws ?df 2 = Inr ?rep"
    by code_simp
  note t = raw_diff_same_orientation_as_bootstrap [OF run]
  from t [THEN conjunct1] have a: "hd (map group ?df) = ''B''"
    by (simp only: report.simps)
  from t [THEN conjunct2, THEN conjunct2, THEN conjunct1]
  have d: "fsub (group_mean ?clean ''B'') (group_mean ?clean ''A'') = Num (- 1 / 2)"
    by (simp only: report.simps)
  from run a d show ?thesis by (intro conjI)
qed

end
